theory Spec2Isabelle
  imports Complex_Main
begin

section \<open>Python string and path operations used by utils.py\<close>

text \<open>
  Python strings are modelled as \<open>string\<close>. \<open>startswith s p\<close> is \<^verbatim>\<open>s.startswith(p)\<close>,
  \<open>split_max c n s\<close> is \<^verbatim>\<open>s.split(c, n)\<close> for a one-character separator (at most \<open>n\<close>
  cuts, from the left) and \<open>split c s\<close> is \<^verbatim>\<open>s.split(c)\<close>: a string has no more
  separators than characters, so \<open>length s\<close> cuts are as good as unboundedly many.
\<close>

definition startswith :: "string \<Rightarrow> string \<Rightarrow> bool" where
  "startswith s p = (take (length p) s = p)"

fun split_max :: "char \<Rightarrow> nat \<Rightarrow> string \<Rightarrow> string list" where
  "split_max c 0 s = [s]"
| "split_max c (Suc n) s =
     (if c \<in> set s
      then takeWhile (\<lambda>x. x \<noteq> c) s # split_max c n (tl (dropWhile (\<lambda>x. x \<noteq> c) s))
      else [s])"

definition split :: "char \<Rightarrow> string \<Rightarrow> string list" where
  "split c s = split_max c (length s) s"

text \<open>
  \<^verbatim>\<open>sep.join(xs)\<close> for a one-character separator.
\<close>

fun join :: "char \<Rightarrow> string list \<Rightarrow> string" where
  "join c [] = []"
| "join c [x] = x"
| "join c (x # y # ys) = x @ c # join c (y # ys)"

text \<open>
  \<^verbatim>\<open>os.path.join(a, b)\<close> of posixpath, for two components.
\<close>

definition path_join :: "string \<Rightarrow> string \<Rightarrow> string" where
  "path_join a b =
     (if startswith b ''/'' then b
      else if a = [] \<or> last a = CHR ''/'' then a @ b
      else a @ ''/'' @ b)"

text \<open>
  Truthiness of an \<^verbatim>\<open>Optional[str]\<close>, as \<^verbatim>\<open>os.getenv\<close> returns it: \<^verbatim>\<open>None\<close> and the
  empty string are false.
\<close>

definition truthy :: "string option \<Rightarrow> bool" where
  "truthy v = (case v of None \<Rightarrow> False | Some s \<Rightarrow> s \<noteq> [])"


section \<open>Values, providers and errors\<close>

text \<open>
  Exceptions are values. Each constructor is the Python exception class, with the
  message the source raises it with.
\<close>

datatype error =
    ImportError string
  | ModuleNotFoundError string
  | ValueError string
  | AttributeError string
  | IndexError string
  | UnboundLocalError string
  | FileNotFoundError string

text \<open>
  The optional packages that \<^verbatim>\<open>resolve_embed_model\<close> imports on demand:
  \<^verbatim>\<open>llama_index.core.bridge.langchain\<close>, \<^verbatim>\<open>llama_index.embeddings.openai\<close>,
  \<^verbatim>\<open>llama_index.embeddings.clip\<close>, \<^verbatim>\<open>llama_index.embeddings.huggingface\<close>,
  \<^verbatim>\<open>llama_index.embeddings.langchain\<close> and
  \<^verbatim>\<open>llama_index.legacy.multi_modal_llms.azure_openai\<close>.
\<close>

datatype package =
    LangchainBridge
  | OpenAIPackage
  | ClipPackage
  | HuggingFacePackage
  | LangchainPackage
  | AzureLegacyPackage

text \<open>
  An instance of the langchain \<^verbatim>\<open>Embeddings\<close> interface is a plain Python object: the only
  thing the resolver can do to it, besides wrapping it, is to set an attribute on it.
\<close>

record 'h lc_embeddings =
  attr_callback_manager :: "'h option"

text \<open>
  An instance of any other class written in Python, neither a \<^verbatim>\<open>BaseEmbedding\<close> nor a
  langchain \<^verbatim>\<open>Embeddings\<close>: it has an attribute dictionary, so that an attribute can be set
  on it.
\<close>

record 'h py_object =
  obj_callback_manager :: "'h option"

text \<open>
  The class of a provider together with the arguments its constructor was called with.
  \<open>HuggingFaceEmbedding\<close> takes \<^verbatim>\<open>model_name\<close> (\<open>None\<close> when the caller names no model, so
  that the constructor's own default applies) and \<^verbatim>\<open>cache_folder\<close>. \<open>CustomEmbedding\<close>
  stands for any other subclass of \<^verbatim>\<open>BaseEmbedding\<close>, with its state.
\<close>

datatype ('h, 'z) embedding_class =
    MockEmbedding nat
  | OpenAIEmbedding
  | ClipEmbedding string
  | HuggingFaceEmbedding "string option" string
  | LangchainEmbedding "'h lc_embeddings"
  | CustomEmbedding 'z

record ('h, 'z) base_embedding =
  embed_class :: "('h, 'z) embedding_class"
  callback_manager :: 'h

text \<open>
  What the parameter \<^verbatim>\<open>embed_model\<close> can hold at run time. The annotation allows \<^verbatim>\<open>None\<close>,
  a \<^verbatim>\<open>str\<close>, a \<^verbatim>\<open>BaseEmbedding\<close> and a langchain \<^verbatim>\<open>Embeddings\<close>; Python does not enforce
  it, so \<open>PyInt\<close> stands for a value of a built-in type, \<open>PyObject\<close> for an instance of
  any other class, and \<open>PyList\<close> is the list of floats that
  \<^verbatim>\<open>get_azure_openai_embedding\<close> returns.
\<close>

datatype ('h, 'v, 'z) pyval =
    PyNone
  | PyStr string
  | PyInt int
  | PyList 'v
  | BaseEmbedding "('h, 'z) base_embedding"
  | LCEmbeddings "'h lc_embeddings"
  | PyObject "'h py_object"


section \<open>The environment and the effects of a call\<close>

text \<open>
  Everything the resolver reads but does not change: the process environment, which
  optional packages can be imported, \<^verbatim>\<open>Settings.callback_manager\<close>, the callback manager a
  freshly constructed \<^verbatim>\<open>BaseEmbedding\<close> starts with, the \<^verbatim>\<open>ValueError\<close> (if any) that
  constructing and validating the OpenAI provider ends in, the result of
  \<^verbatim>\<open>get_cache_dir()\<close>, and the vector the Azure service answers with.
\<close>

record ('h, 'v) env =
  environ :: "string \<rightharpoonup> string"
  importable :: "package \<Rightarrow> bool"
  settings_callback_manager :: 'h
  fresh_callback_manager :: 'h
  openai_key_error :: "string option"
  cache_dir :: string
  azure_response :: "string \<Rightarrow> string \<Rightarrow> string \<Rightarrow> string \<Rightarrow> string \<Rightarrow> 'v"

text \<open>
  What a call changes: the directories that exist, the lines printed to standard output,
  and the log of effectful steps in the order they were executed.
\<close>

datatype event =
    Import package
  | Getenv string
  | ValidateKey
  | Makedirs string
  | Print string
  | AzureRequest

record world =
  dirs :: "string set"
  stdout :: "string list"
  events :: "event list"

type_synonym 'a action = "world \<Rightarrow> (error + 'a) \<times> world"

definition ret :: "'a \<Rightarrow> 'a action" where
  "ret a = (\<lambda>w. (Inr a, w))"

definition raise :: "error \<Rightarrow> 'a action" where
  "raise e = (\<lambda>w. (Inl e, w))"

definition seq :: "'a action \<Rightarrow> ('a \<Rightarrow> 'b action) \<Rightarrow> 'b action" where
  "seq m f = (\<lambda>w. case m w of (Inl e, w') \<Rightarrow> (Inl e, w') | (Inr a, w') \<Rightarrow> f a w')"

definition log_event :: "event \<Rightarrow> unit action" where
  "log_event ev = (\<lambda>w. (Inr (), w\<lparr>events := events w @ [ev]\<rparr>))"

text \<open>
  \<^verbatim>\<open>try: from pkg import ... except ImportError\<close>: the attempt is logged, and the result says
  whether the import succeeded.
\<close>

definition try_import :: "('h, 'v) env \<Rightarrow> package \<Rightarrow> bool action" where
  "try_import env pkg = seq (log_event (Import pkg)) (\<lambda>_. ret (importable env pkg))"

definition getenv :: "('h, 'v) env \<Rightarrow> string \<Rightarrow> string option action" where
  "getenv env name = seq (log_event (Getenv name)) (\<lambda>_. ret (environ env name))"

text \<open>
  \<^verbatim>\<open>os.makedirs(path, exist_ok=True)\<close>: afterwards the directory exists, whether or not it
  did before.
\<close>

definition makedirs :: "string \<Rightarrow> unit action" where
  "makedirs path =
     seq (log_event (Makedirs path)) (\<lambda>_ w. (Inr (), w\<lparr>dirs := insert path (dirs w)\<rparr>))"

definition print :: "string \<Rightarrow> unit action" where
  "print line =
     seq (log_event (Print line)) (\<lambda>_ w. (Inr (), w\<lparr>stdout := stdout w @ [line]\<rparr>))"


section \<open>The messages of utils.py\<close>

definition openai_missing :: string where
  "openai_missing = ''`llama-index-embeddings-openai` package not found, please run `pip install llama-index-embeddings-openai`''"

definition clip_missing :: string where
  "clip_missing = ''`llama-index-embeddings-clip` package not found, please run `pip install llama-index-embeddings-clip` and `pip install git+https://github.com/openai/CLIP.git`''"

definition huggingface_missing :: string where
  "huggingface_missing = ''`llama-index-embeddings-huggingface` package not found, please run `pip install llama-index-embeddings-huggingface`''"

definition langchain_missing :: string where
  "langchain_missing = ''`llama-index-embeddings-langchain` package not found, please run `pip install llama-index-embeddings-langchain`''"

definition openai_key_message :: "string \<Rightarrow> string" where
  "openai_key_message e =
     ''\<newline>******\<newline>Could not load OpenAI embedding model. If you intended to use OpenAI, please check your OPENAI_API_KEY.\<newline>Original error:\<newline>''
     @ e
     @ ''\<newline>Consider using embed_model='local'.\<newline>Visit our documentation for more embedding options: https://docs.llamaindex.ai/en/stable/module_guides/models/embeddings.html#modules\<newline>******''"

definition must_be_local :: string where
  "must_be_local = ''embed_model must start with str 'local' or of type BaseEmbedding''"

definition azure_form :: string where
  "azure_form = ''For Azure OpenAI, embed_model should be of the form 'azure-openai:<endpoint>:<model_name>:<api_version>'' @ [CHR 0x27]"

definition azure_key_missing :: string where
  "azure_key_missing = ''AZURE_OPENAI_API_KEY environment variable is not set.''"

definition disabled_notice :: string where
  "disabled_notice = ''Embeddings have been explicitly disabled. Using MockEmbedding.''"

definition no_attribute :: "string \<Rightarrow> string" where
  "no_attribute ty = [CHR 0x27] @ ty @ ''' object has no attribute 'callback_manager'' @ [CHR 0x27]"


section \<open>resolve_embed_model\<close>

text \<open>
  A provider as its constructor leaves it, before the resolver binds a callback manager.
\<close>

definition construct ::
  "('h, 'z) embedding_class \<Rightarrow> ('h, 'v) env \<Rightarrow> ('h, 'v, 'z) pyval" where
  "construct cls env = BaseEmbedding \<lparr>embed_class = cls, callback_manager = fresh_callback_manager env\<rparr>"

text \<open>
  \<^verbatim>\<open>callback_manager or Settings.callback_manager\<close>. A \<^verbatim>\<open>CallbackManager\<close> defines neither
  \<^verbatim>\<open>__bool__\<close> nor \<^verbatim>\<open>__len__\<close>, so every instance is true and only \<^verbatim>\<open>None\<close> selects the
  default.
\<close>

definition handle_or_default :: "'h option \<Rightarrow> ('h, 'v) env \<Rightarrow> 'h" where
  "handle_or_default cm env = (case cm of Some h \<Rightarrow> h | None \<Rightarrow> settings_callback_manager env)"

text \<open>
  \<^verbatim>\<open>embed_model.callback_manager = h\<close>. Instances of the built-in types have no attribute
  dictionary, and the assignment raises \<^verbatim>\<open>AttributeError\<close>; on every other object it
  sets the attribute.
\<close>

fun set_callback_manager :: "('h, 'v, 'z) pyval \<Rightarrow> 'h \<Rightarrow> error + ('h, 'v, 'z) pyval" where
  "set_callback_manager (BaseEmbedding p) h = Inr (BaseEmbedding (p\<lparr>callback_manager := h\<rparr>))"
| "set_callback_manager (LCEmbeddings obj) h = Inr (LCEmbeddings (obj\<lparr>attr_callback_manager := Some h\<rparr>))"
| "set_callback_manager (PyObject obj) h = Inr (PyObject (obj\<lparr>obj_callback_manager := Some h\<rparr>))"
| "set_callback_manager PyNone h = Inl (AttributeError (no_attribute ''NoneType''))"
| "set_callback_manager (PyStr s) h = Inl (AttributeError (no_attribute ''str''))"
| "set_callback_manager (PyInt i) h = Inl (AttributeError (no_attribute ''int''))"
| "set_callback_manager (PyList v) h = Inl (AttributeError (no_attribute ''list''))"



text \<open>
  A block of the function either returns from it or falls through to the next block
  with the current value of \<^verbatim>\<open>embed_model\<close>.
\<close>

datatype 'a flow = Returned 'a | Continue 'a

text \<open>
  Lines 53 to 101: the \<^verbatim>\<open>"default"\<close> branch with its test-mode return, and the
  \<^verbatim>\<open>elif\<close> for strings that start with \<^verbatim>\<open>"clip"\<close>.
\<close>

definition default_or_clip ::
  "('h, 'v, 'z) pyval \<Rightarrow> 'h option \<Rightarrow> ('h, 'v) env \<Rightarrow> ('h, 'v, 'z) pyval flow action" where
  "default_or_clip embed_model cm env =
     (if embed_model = PyStr ''default'' then
        seq (getenv env ''IS_TESTING'') (\<lambda>testing.
          if truthy testing then
            (case set_callback_manager (construct (MockEmbedding 8) env) (handle_or_default cm env) of
               Inl e \<Rightarrow> raise e
             | Inr m \<Rightarrow> ret (Returned m))
          else
            seq (try_import env OpenAIPackage) (\<lambda>ok.
              if \<not> ok then raise (ImportError openai_missing)
              else
                seq (log_event ValidateKey) (\<lambda>_.
                  case openai_key_error env of
                    Some e \<Rightarrow> raise (ValueError (openai_key_message e))
                  | None \<Rightarrow> ret (Continue (construct OpenAIEmbedding env)))))
      else
        (case embed_model of
           PyStr s \<Rightarrow>
             if startswith s ''clip'' then
               seq (try_import env ClipPackage) (\<lambda>ok.
                 if \<not> ok then raise (ImportError clip_missing)
                 else if CHR '':'' \<in> set s then
                   (case split CHR '':'' s of
                      _ # clip_model_name # _ \<Rightarrow> ret (Continue (construct (ClipEmbedding clip_model_name) env))
                    | _ \<Rightarrow> raise (IndexError ''list index out of range''))
                 else ret (Continue (construct (ClipEmbedding ''ViT-B/32'') env)))
             else ret (Continue embed_model)
         | _ \<Rightarrow> ret (Continue embed_model)))"

text \<open>
  Lines 103 to 127: every value that is still a string is taken for a local model.
\<close>

definition local_model ::
  "('h, 'v, 'z) pyval \<Rightarrow> ('h, 'v) env \<Rightarrow> ('h, 'v, 'z) pyval action" where
  "local_model embed_model env =
     (case embed_model of
        PyStr s \<Rightarrow>
          seq (try_import env HuggingFacePackage) (\<lambda>ok.
            if \<not> ok then raise (ImportError huggingface_missing)
            else
              (case split_max CHR '':'' 1 s of
                 [] \<Rightarrow> raise (IndexError ''list index out of range'')
               | is_local # rest \<Rightarrow>
                   let model_name = (case rest of [] \<Rightarrow> None | name # _ \<Rightarrow> Some name) in
                   if is_local \<noteq> ''local'' then raise (ValueError must_be_local)
                   else
                     let cache_folder = path_join (cache_dir env) ''models'' in
                     seq (makedirs cache_folder) (\<lambda>_.
                       ret (construct (HuggingFaceEmbedding model_name cache_folder) env))))
      | _ \<Rightarrow> ret embed_model)"

text \<open>
  Lines 129 to 140: \<open>bridge\<close> says whether the import of lines 48 to 51 gave a class to
  compare with.
\<close>

definition langchain_wrap ::
  "bool \<Rightarrow> ('h, 'v, 'z) pyval \<Rightarrow> ('h, 'v) env \<Rightarrow> ('h, 'v, 'z) pyval action" where
  "langchain_wrap bridge embed_model env =
     (case embed_model of
        LCEmbeddings obj \<Rightarrow>
          if bridge then
            seq (try_import env LangchainPackage) (\<lambda>ok.
              if \<not> ok then raise (ImportError langchain_missing)
              else ret (construct (LangchainEmbedding obj) env))
          else ret embed_model
      | _ \<Rightarrow> ret embed_model)"

text \<open>
  Lines 26 to 39.
\<close>

definition get_azure_openai_embedding ::
  "('h, 'v) env \<Rightarrow> string \<Rightarrow> string \<Rightarrow> string \<Rightarrow> string \<Rightarrow> string \<Rightarrow> 'v action" where
  "get_azure_openai_embedding env input_text api_key endpoint model_name api_version =
     seq (try_import env AzureLegacyPackage) (\<lambda>ok.
       if \<not> ok then raise (ModuleNotFoundError (''No module named 'llama_index.legacy'' @ [CHR 0x27]))
       else
         seq (log_event AzureRequest) (\<lambda>_.
           ret (azure_response env input_text api_key endpoint model_name api_version)))"

text \<open>
  Lines 142 to 154.
\<close>

definition azure_openai ::
  "('h, 'v, 'z) pyval \<Rightarrow> ('h, 'v) env \<Rightarrow> ('h, 'v, 'z) pyval action" where
  "azure_openai embed_model env =
     (case embed_model of
        PyStr s \<Rightarrow>
          if startswith s ''azure-openai'' then
            (case split CHR '':'' s of
               [_, endpoint, model_name, api_version] \<Rightarrow>
                 seq (getenv env ''AZURE_OPENAI_API_KEY'') (\<lambda>api_key.
                   case api_key of
                     None \<Rightarrow> raise (ValueError azure_key_missing)
                   | Some k \<Rightarrow>
                       if k = [] then raise (ValueError azure_key_missing)
                       else
                         seq (get_azure_openai_embedding env s k endpoint model_name api_version)
                           (\<lambda>v. ret (PyList v)))
             | _ \<Rightarrow> raise (ValueError azure_form))
          else ret embed_model
      | _ \<Rightarrow> ret embed_model)"

text \<open>
  Lines 156 to 158.
\<close>

definition disabled ::
  "('h, 'v, 'z) pyval \<Rightarrow> ('h, 'v) env \<Rightarrow> ('h, 'v, 'z) pyval action" where
  "disabled embed_model env =
     (case embed_model of
        PyNone \<Rightarrow> seq (print disabled_notice) (\<lambda>_. ret (construct (MockEmbedding 1) env))
      | _ \<Rightarrow> ret embed_model)"

text \<open>
  The whole function: the import attempt of lines 48 to 51, the blocks in the order of
  the source, and the assignment and return of lines 160 to 162.
\<close>

definition resolve_embed_model ::
  "('h, 'v, 'z) pyval \<Rightarrow> 'h option \<Rightarrow> ('h, 'v) env \<Rightarrow> ('h, 'v, 'z) pyval action" where
  "resolve_embed_model embed_model cm env =
     seq (try_import env LangchainBridge) (\<lambda>bridge.
     seq (default_or_clip embed_model cm env) (\<lambda>fl.
       case fl of
         Returned m \<Rightarrow> ret m
       | Continue m1 \<Rightarrow>
           seq (local_model m1 env) (\<lambda>m2.
           seq (langchain_wrap bridge m2 env) (\<lambda>m3.
           seq (azure_openai m3 env) (\<lambda>m4.
           seq (disabled m4 env) (\<lambda>m5.
             case set_callback_manager m5 (handle_or_default cm env) of
               Inl e \<Rightarrow> raise e
             | Inr m \<Rightarrow> ret m))))))"


section \<open>save_embedding and load_embedding\<close>

text \<open>
  The file system is a map from paths to file contents. \<^verbatim>\<open>str.strip()\<close> removes the
  characters for which \<^verbatim>\<open>str.isspace()\<close> holds from both ends; a file opened in text mode
  is read with universal newlines (CR LF and CR become LF), and iterating over
  it yields its lines, each with its terminating newline.
\<close>

definition is_space :: "char \<Rightarrow> bool" where
  "is_space c = (c \<in> set [CHR 0x09, CHR 0x0A, CHR 0x0B, CHR 0x0C, CHR 0x0D, CHR 0x1C, CHR 0x1D,
                          CHR 0x1E, CHR 0x1F, CHR 0x20, CHR 0x85, CHR 0xA0])"

definition strip :: "string \<Rightarrow> string" where
  "strip s = rev (dropWhile is_space (rev (dropWhile is_space s)))"

fun translate_newlines :: "string \<Rightarrow> string" where
  "translate_newlines [] = []"
| "translate_newlines [c] = (if c = CHR 0x0D then [CHR 0x0A] else [c])"
| "translate_newlines (c # d # cs) =
     (if c = CHR 0x0D \<and> d = CHR 0x0A then CHR 0x0A # translate_newlines cs
      else if c = CHR 0x0D then CHR 0x0A # translate_newlines (d # cs)
      else c # translate_newlines (d # cs))"

fun lines_from :: "string \<Rightarrow> string \<Rightarrow> string list" where
  "lines_from acc [] = (if acc = [] then [] else [rev acc])"
| "lines_from acc (c # cs) =
     (if c = CHR 0x0A then rev (c # acc) # lines_from [] cs else lines_from (c # acc) cs)"

definition file_lines :: "string \<Rightarrow> string list" where
  "file_lines content = lines_from [] (translate_newlines content)"

text \<open>
  The conversions \<^verbatim>\<open>str(x)\<close> and \<^verbatim>\<open>float(s)\<close> of the interpreter are parameters of the two
  functions; \<^verbatim>\<open>float\<close> raises \<^verbatim>\<open>ValueError\<close> on a string that is not a number, and the list
  comprehension stops at the first such field.
\<close>

fun parse_floats :: "(string \<Rightarrow> 'f option) \<Rightarrow> string list \<Rightarrow> error + 'f list" where
  "parse_floats float [] = Inr []"
| "parse_floats float (x # xs) =
     (case float x of
        None \<Rightarrow> Inl (ValueError (''could not convert string to float: '' @ [CHR 0x27] @ x @ [CHR 0x27]))
      | Some v \<Rightarrow> (case parse_floats float xs of Inl e \<Rightarrow> Inl e | Inr vs \<Rightarrow> Inr (v # vs)))"

text \<open>
  \<^verbatim>\<open>save_embedding\<close> (lines 13-16) replaces the content of the file by the elements joined
  with commas. \<^verbatim>\<open>load_embedding\<close> (lines 18-24) parses the first line and leaves the loop;
  on a file with no line the variable \<^verbatim>\<open>embedding\<close> is never bound and the
  \<^verbatim>\<open>return\<close> raises \<^verbatim>\<open>UnboundLocalError\<close>.
\<close>

definition save_embedding ::
  "('f \<Rightarrow> string) \<Rightarrow> 'f list \<Rightarrow> string \<Rightarrow> (string \<rightharpoonup> string) \<Rightarrow> (string \<rightharpoonup> string)" where
  "save_embedding str embedding file_path files =
     files(file_path \<mapsto> join CHR '','' (map str embedding))"

definition load_embedding ::
  "(string \<Rightarrow> 'f option) \<Rightarrow> string \<Rightarrow> (string \<rightharpoonup> string) \<Rightarrow> error + 'f list" where
  "load_embedding float file_path files =
     (case files file_path of
        None \<Rightarrow> Inl (FileNotFoundError file_path)
      | Some content \<Rightarrow>
          (case file_lines content of
             [] \<Rightarrow> Inl (UnboundLocalError ''embedding'')
           | line # _ \<Rightarrow> parse_floats float (split CHR '','' (strip line))))"


section \<open>Predicates used in the statements\<close>





section \<open>Sample inputs\<close>

text \<open>
  A concrete environment and a concrete starting state, on which the theorems below are
  instantiated: callback managers are numbered, \<^verbatim>\<open>Settings.callback_manager\<close> is number 0.
\<close>

definition sample_env :: "(string \<rightharpoonup> string) \<Rightarrow> (package \<Rightarrow> bool) \<Rightarrow> (nat, nat list) env" where
  "sample_env vars pkgs =
     \<lparr>environ = vars, importable = pkgs, settings_callback_manager = 0,
      fresh_callback_manager = 1, openai_key_error = None,
      cache_dir = ''/home/user/.cache/llama_index'',
      azure_response = (\<lambda>_ _ _ _ _. [])\<rparr>"

definition sample_world :: world where
  "sample_world = \<lparr>dirs = {}, stdout = [], events = []\<rparr>"


text \<open>
  A sample of the two conversions on three floats, as the interpreter prints and reads them.
\<close>

definition sample_str :: "real \<Rightarrow> string" where
  "sample_str x = (if x = 1 then ''1.0'' else if x = 5/2 then ''2.5'' else ''0.0'')"

definition sample_float :: "string \<Rightarrow> real option" where
  "sample_float s =
     (if s = ''1.0'' then Some 1 else if s = ''2.5'' then Some (5/2)
      else if s = ''0.0'' then Some 0 else None)"


section \<open>Facts about splitting\<close>

lemmas action_defs =
  Let_def seq_def ret_def raise_def log_event_def try_import_def getenv_def makedirs_def print_def

lemmas block_defs =
  resolve_embed_model_def default_or_clip_def local_model_def langchain_wrap_def
  azure_openai_def disabled_def construct_def

lemma split_max_nonempty: "split_max c n s \<noteq> []"
  by (cases n) simp_all

lemma takeWhile_no_sep: "c \<notin> set s \<Longrightarrow> takeWhile (\<lambda>x. x \<noteq> c) s = s"
  by (induction s) auto

lemma hd_split_max:
  "length s \<le> n \<Longrightarrow> hd (split_max c n s) = takeWhile (\<lambda>x. x \<noteq> c) s"
  by (cases n) (simp_all add: takeWhile_no_sep)

text \<open>
  A string that contains the separator splits into at least two fields: the text before
  the first separator, and the text between the first separator and the second (or
  the end).
\<close>

lemma split_two_fields:
  assumes "c \<in> set s"
  shows "\<exists>rest. split c s =
           takeWhile (\<lambda>x. x \<noteq> c) s
           # takeWhile (\<lambda>x. x \<noteq> c) (tl (dropWhile (\<lambda>x. x \<noteq> c) s)) # rest"
proof -
  from assms obtain n where n: "length s = Suc n" by (cases s) auto
  let ?s' = "tl (dropWhile (\<lambda>x. x \<noteq> c) s)"
  have "length ?s' \<le> n"
    using n length_dropWhile_le [of "\<lambda>x. x \<noteq> c" s] by simp
  then have h: "hd (split_max c n ?s') = takeWhile (\<lambda>x. x \<noteq> c) ?s'"
    by (rule hd_split_max)
  obtain f fs where fs: "split_max c n ?s' = f # fs"
    using split_max_nonempty [of c n ?s'] by (cases "split_max c n ?s'") auto
  with h have "f = takeWhile (\<lambda>x. x \<noteq> c) ?s'" by simp
  with fs n assms show ?thesis by (simp add: split_def)
qed


section \<open>The explicit-disable and test-mode mocks\<close>

text \<open>
  Claim C5. Resolving \<^verbatim>\<open>None\<close> returns, in every environment and from every state, a
  \<^verbatim>\<open>MockEmbedding\<close> of dimension 1 bound to the callback manager, and appends the notice
  to standard output. Besides the print, the only step executed is the import attempt
  at the head of the function.
\<close>

theorem resolve_none_mock:
  "resolve_embed_model PyNone cm env w =
     (Inr (BaseEmbedding \<lparr>embed_class = MockEmbedding 1,
                          callback_manager = handle_or_default cm env\<rparr>),
      w\<lparr>stdout := stdout w @ [disabled_notice],
        events := events w @ [Import LangchainBridge, Print disabled_notice]\<rparr>)"
  by (simp add: block_defs action_defs)

text \<open>
  Claim C4. When \<^verbatim>\<open>IS_TESTING\<close> is set to a non-empty string, resolving \<^verbatim>\<open>"default"\<close>
  returns a \<^verbatim>\<open>MockEmbedding\<close> of dimension 8 bound to the callback manager, whatever the
  rest of the environment is. The log shows what was executed: the import attempt at
  the head of the function and the read of \<^verbatim>\<open>IS_TESTING\<close>, and then nothing: no import
  of a provider package, no key validation, no directory created, nothing printed.
\<close>

theorem resolve_default_test_mode:
  assumes "truthy (environ env ''IS_TESTING'')"
  shows "resolve_embed_model (PyStr ''default'') cm env w =
     (Inr (BaseEmbedding \<lparr>embed_class = MockEmbedding 8,
                          callback_manager = handle_or_default cm env\<rparr>),
      w\<lparr>events := events w @ [Import LangchainBridge, Getenv ''IS_TESTING'']\<rparr>)"
  using assms by (simp add: block_defs action_defs)

theorem resolve_default_test_mode_witness:
  "truthy (environ (sample_env [''IS_TESTING'' \<mapsto> ''1''] (\<lambda>_. False)) ''IS_TESTING'')
   \<and> resolve_embed_model (PyStr ''default'' :: (nat, nat list, unit) pyval) (Some 7)
        (sample_env [''IS_TESTING'' \<mapsto> ''1''] (\<lambda>_. False)) sample_world =
     (Inr (BaseEmbedding \<lparr>embed_class = MockEmbedding 8, callback_manager = 7\<rparr>),
      \<lparr>dirs = {}, stdout = [], events = [Import LangchainBridge, Getenv ''IS_TESTING'']\<rparr>)"
  using resolve_default_test_mode
    [of "sample_env [''IS_TESTING'' \<mapsto> ''1''] (\<lambda>_. False)" "Some 7" sample_world]
  by (simp add: sample_env_def sample_world_def truthy_def handle_or_default_def)


section \<open>Providers passed in\<close>

text \<open>
  Claim C7. A \<^verbatim>\<open>BaseEmbedding\<close> instance comes back as it went in, with one field
  changed: its callback manager is now the supplied one \<open>h\<close>, or
  \<^verbatim>\<open>Settings.callback_manager\<close> when none was supplied. Its class and constructor state are
  untouched, no directory is created and nothing is printed. Resolving the result again
  with the same callback manager, from any state, returns the same provider.
\<close>

theorem resolve_provider_passthrough:
  "resolve_embed_model (BaseEmbedding p) (Some h) env w =
     (Inr (BaseEmbedding (p\<lparr>callback_manager := h\<rparr>)),
      w\<lparr>events := events w @ [Import LangchainBridge]\<rparr>)
   \<and> resolve_embed_model (BaseEmbedding p) None env w =
     (Inr (BaseEmbedding (p\<lparr>callback_manager := settings_callback_manager env\<rparr>)),
      w\<lparr>events := events w @ [Import LangchainBridge]\<rparr>)
   \<and> embed_class (p\<lparr>callback_manager := h\<rparr>) = embed_class p
   \<and> embed_class (p\<lparr>callback_manager := settings_callback_manager env\<rparr>) = embed_class p
   \<and> fst (resolve_embed_model (BaseEmbedding (p\<lparr>callback_manager := h\<rparr>)) (Some h) env w') =
       Inr (BaseEmbedding (p\<lparr>callback_manager := h\<rparr>))
   \<and> fst (resolve_embed_model
             (BaseEmbedding (p\<lparr>callback_manager := settings_callback_manager env\<rparr>)) None env w') =
       Inr (BaseEmbedding (p\<lparr>callback_manager := settings_callback_manager env\<rparr>))"
  by (simp add: block_defs action_defs handle_or_default_def)

theorem resolve_provider_passthrough_witness:
  "resolve_embed_model
     (BaseEmbedding \<lparr>embed_class = HuggingFaceEmbedding (Some ''bge'') ''/cache'', callback_manager = 9\<rparr>
        :: (nat, nat list, unit) pyval)
     (Some 4) (sample_env Map.empty (\<lambda>_. False)) sample_world =
     (Inr (BaseEmbedding \<lparr>embed_class = HuggingFaceEmbedding (Some ''bge'') ''/cache'', callback_manager = 4\<rparr>),
      \<lparr>dirs = {}, stdout = [], events = [Import LangchainBridge]\<rparr>)
   \<and> resolve_embed_model
     (BaseEmbedding \<lparr>embed_class = HuggingFaceEmbedding (Some ''bge'') ''/cache'', callback_manager = 9\<rparr>
        :: (nat, nat list, unit) pyval)
     None (sample_env Map.empty (\<lambda>_. False)) sample_world =
     (Inr (BaseEmbedding \<lparr>embed_class = HuggingFaceEmbedding (Some ''bge'') ''/cache'', callback_manager = 0\<rparr>),
      \<lparr>dirs = {}, stdout = [], events = [Import LangchainBridge]\<rparr>)
   \<and> fst (resolve_embed_model
     (BaseEmbedding \<lparr>embed_class = HuggingFaceEmbedding (Some ''bge'') ''/cache'', callback_manager = 4\<rparr>
        :: (nat, nat list, unit) pyval)
     (Some 4) (sample_env Map.empty (\<lambda>_. False)) sample_world) =
     Inr (BaseEmbedding \<lparr>embed_class = HuggingFaceEmbedding (Some ''bge'') ''/cache'', callback_manager = 4\<rparr>)"
  using resolve_provider_passthrough
    [of
      "\<lparr>embed_class = HuggingFaceEmbedding (Some ''bge'') ''/cache'', callback_manager = 9\<rparr>
         :: (nat, unit) base_embedding"
      4 "sample_env Map.empty (\<lambda>_. False)" sample_world sample_world]
  by (simp add: sample_env_def sample_world_def)


section \<open>Strings\<close>

text \<open>
  Claim C1. The block of lines 103 to 127 takes every string for a local model, so a
  string that starts with \<^verbatim>\<open>"azure-openai"\<close> never reaches the block of lines 142 to 154.
  Both \<^verbatim>\<open>"azure-openai:a:b"\<close> and \<^verbatim>\<open>"azure-openai:a:b:c"\<close> end in the same error: the
  \<^verbatim>\<open>ValueError\<close> that asks for a string starting with \<^verbatim>\<open>'local'\<close>, or the \<^verbatim>\<open>ImportError\<close> for
  the huggingface package when that is missing. The log shows that
  \<^verbatim>\<open>AZURE_OPENAI_API_KEY\<close> is not read.
\<close>

theorem azure_specifier_taken_for_local:
  "resolve_embed_model (PyStr ''azure-openai:a:b:c'') cm env w =
     (Inl (if importable env HuggingFacePackage then ValueError must_be_local
           else ImportError huggingface_missing),
      w\<lparr>events := events w @ [Import LangchainBridge, Import HuggingFacePackage]\<rparr>)
   \<and> resolve_embed_model (PyStr ''azure-openai:a:b'') cm env w =
     (Inl (if importable env HuggingFacePackage then ValueError must_be_local
           else ImportError huggingface_missing),
      w\<lparr>events := events w @ [Import LangchainBridge, Import HuggingFacePackage]\<rparr>)"
  by (simp add: block_defs startswith_def action_defs)

text \<open>
  Claim C6. With the huggingface package importable, \<^verbatim>\<open>"local"\<close> and \<^verbatim>\<open>"local:<name>"\<close>
  both return a \<^verbatim>\<open>HuggingFaceEmbedding\<close>. The string is cut at its first colon only: the
  model name is everything after it, colons included; \<^verbatim>\<open>"local"\<close> passes no name, which
  leaves the choice to the constructor's default. Both pass the cache folder
  \<^verbatim>\<open>os.path.join(get_cache_dir(), "models")\<close>, which is the cache root followed by
  \<^verbatim>\<open>/models\<close>, and after the call that directory exists, whether or not it existed before.
\<close>

theorem resolve_local_model:
  assumes "importable env HuggingFacePackage"
  shows "resolve_embed_model (PyStr ''local'' :: ('h, 'v, 'z) pyval) cm env w =
     (Inr (BaseEmbedding
            \<lparr>embed_class = HuggingFaceEmbedding None (path_join (cache_dir env) ''models''),
             callback_manager = handle_or_default cm env\<rparr>),
      w\<lparr>dirs := insert (path_join (cache_dir env) ''models'') (dirs w),
        events := events w @ [Import LangchainBridge, Import HuggingFacePackage,
                              Makedirs (path_join (cache_dir env) ''models'')]\<rparr>)
   \<and> resolve_embed_model (PyStr (''local:'' @ name) :: ('h, 'v, 'z) pyval) cm env w =
     (Inr (BaseEmbedding
            \<lparr>embed_class = HuggingFaceEmbedding (Some name) (path_join (cache_dir env) ''models''),
             callback_manager = handle_or_default cm env\<rparr>),
      w\<lparr>dirs := insert (path_join (cache_dir env) ''models'') (dirs w),
        events := events w @ [Import LangchainBridge, Import HuggingFacePackage,
                              Makedirs (path_join (cache_dir env) ''models'')]\<rparr>)
   \<and> (cache_dir env \<noteq> [] \<and> last (cache_dir env) \<noteq> CHR ''/'' \<longrightarrow>
         path_join (cache_dir env) ''models'' = cache_dir env @ ''/models'')"
  using assms by (simp add: block_defs startswith_def path_join_def action_defs)

theorem resolve_local_model_witness:
  "importable (sample_env Map.empty (\<lambda>p. p = HuggingFacePackage)) HuggingFacePackage
   \<and> cache_dir (sample_env Map.empty (\<lambda>p. p = HuggingFacePackage)) \<noteq> []
   \<and> last (cache_dir (sample_env Map.empty (\<lambda>p. p = HuggingFacePackage))) \<noteq> CHR ''/''
   \<and> resolve_embed_model (PyStr ''local:foo'' :: (nat, nat list, unit) pyval) None
        (sample_env Map.empty (\<lambda>p. p = HuggingFacePackage)) sample_world =
     (Inr (BaseEmbedding
            \<lparr>embed_class = HuggingFaceEmbedding (Some ''foo'') ''/home/user/.cache/llama_index/models'',
             callback_manager = 0\<rparr>),
      \<lparr>dirs = {''/home/user/.cache/llama_index/models''}, stdout = [],
       events = [Import LangchainBridge, Import HuggingFacePackage,
                 Makedirs ''/home/user/.cache/llama_index/models'']\<rparr>)"
  using resolve_local_model
    [where 'z = unit, of "sample_env Map.empty (\<lambda>p. p = HuggingFacePackage)" None sample_world "''foo''"]
  by (simp add: sample_env_def sample_world_def handle_or_default_def path_join_def startswith_def)

lemma clip_not_default: "startswith s ''clip'' \<Longrightarrow> s \<noteq> ''default''"
  by (auto simp: startswith_def)

lemma clip_without_colon:
  assumes "startswith s ''clip''" and "importable env ClipPackage" and "CHR '':'' \<notin> set s"
  shows "resolve_embed_model (PyStr s) cm env w =
       (Inr (BaseEmbedding \<lparr>embed_class = ClipEmbedding ''ViT-B/32'',
                            callback_manager = handle_or_default cm env\<rparr>),
        w\<lparr>events := events w @ [Import LangchainBridge, Import ClipPackage]\<rparr>)"
  using assms clip_not_default [OF assms(1)] by (simp add: block_defs action_defs)

lemma clip_with_colon:
  assumes "startswith s ''clip''" and "importable env ClipPackage" and c: "CHR '':'' \<in> set s"
  shows "resolve_embed_model (PyStr s) cm env w =
       (Inr (BaseEmbedding
              \<lparr>embed_class = ClipEmbedding
                 (takeWhile (\<lambda>x. x \<noteq> CHR '':'') (tl (dropWhile (\<lambda>x. x \<noteq> CHR '':'') s))),
               callback_manager = handle_or_default cm env\<rparr>),
        w\<lparr>events := events w @ [Import LangchainBridge, Import ClipPackage]\<rparr>)"
proof -
  from split_two_fields [OF c] obtain rest where
    "split CHR '':'' s = takeWhile (\<lambda>x. x \<noteq> CHR '':'') s
       # takeWhile (\<lambda>x. x \<noteq> CHR '':'') (tl (dropWhile (\<lambda>x. x \<noteq> CHR '':'') s)) # rest" ..
  with assms clip_not_default [OF assms(1)] show ?thesis
    by (simp add: block_defs action_defs)
qed

text \<open>
  Claim C9. With the clip package importable, a string that starts with \<^verbatim>\<open>"clip"\<close> returns
  a \<^verbatim>\<open>ClipEmbedding\<close>. Without a colon in the string the model name is \<^verbatim>\<open>"ViT-B/32"\<close>. With
  a colon it is the second field of the split on colons, the text between the first
  colon and the second one or the end; so \<^verbatim>\<open>"clip:<name>"\<close>, with a name free of colons,
  passes the name.
\<close>

theorem resolve_clip_model_name:
  assumes "startswith s ''clip''" and "importable env ClipPackage"
  shows "(CHR '':'' \<notin> set s \<longrightarrow>
     resolve_embed_model (PyStr s :: ('h, 'v, 'z) pyval) cm env w =
       (Inr (BaseEmbedding \<lparr>embed_class = ClipEmbedding ''ViT-B/32'',
                            callback_manager = handle_or_default cm env\<rparr>),
        w\<lparr>events := events w @ [Import LangchainBridge, Import ClipPackage]\<rparr>))
   \<and> (CHR '':'' \<in> set s \<longrightarrow>
     resolve_embed_model (PyStr s :: ('h, 'v, 'z) pyval) cm env w =
       (Inr (BaseEmbedding
              \<lparr>embed_class = ClipEmbedding
                 (takeWhile (\<lambda>x. x \<noteq> CHR '':'') (tl (dropWhile (\<lambda>x. x \<noteq> CHR '':'') s))),
               callback_manager = handle_or_default cm env\<rparr>),
        w\<lparr>events := events w @ [Import LangchainBridge, Import ClipPackage]\<rparr>))
   \<and> (s = ''clip:'' @ name \<and> CHR '':'' \<notin> set name \<longrightarrow>
     resolve_embed_model (PyStr s :: ('h, 'v, 'z) pyval) cm env w =
       (Inr (BaseEmbedding \<lparr>embed_class = ClipEmbedding name,
                            callback_manager = handle_or_default cm env\<rparr>),
        w\<lparr>events := events w @ [Import LangchainBridge, Import ClipPackage]\<rparr>))"
proof (intro conjI impI)
  assume "CHR '':'' \<notin> set s"
  then show "resolve_embed_model (PyStr s) cm env w =
       (Inr (BaseEmbedding \<lparr>embed_class = ClipEmbedding ''ViT-B/32'',
                            callback_manager = handle_or_default cm env\<rparr>),
        w\<lparr>events := events w @ [Import LangchainBridge, Import ClipPackage]\<rparr>)"
    using assms by (rule_tac clip_without_colon)
next
  assume "CHR '':'' \<in> set s"
  then show "resolve_embed_model (PyStr s) cm env w =
       (Inr (BaseEmbedding
              \<lparr>embed_class = ClipEmbedding
                 (takeWhile (\<lambda>x. x \<noteq> CHR '':'') (tl (dropWhile (\<lambda>x. x \<noteq> CHR '':'') s))),
               callback_manager = handle_or_default cm env\<rparr>),
        w\<lparr>events := events w @ [Import LangchainBridge, Import ClipPackage]\<rparr>)"
    using assms by (rule_tac clip_with_colon)
next
  assume n: "s = ''clip:'' @ name \<and> CHR '':'' \<notin> set name"
  then have "CHR '':'' \<in> set s" by simp
  moreover from n have
    "takeWhile (\<lambda>x. x \<noteq> CHR '':'') (tl (dropWhile (\<lambda>x. x \<noteq> CHR '':'') s)) = name"
    by (simp add: takeWhile_no_sep)
  ultimately show "resolve_embed_model (PyStr s) cm env w =
       (Inr (BaseEmbedding \<lparr>embed_class = ClipEmbedding name,
                            callback_manager = handle_or_default cm env\<rparr>),
        w\<lparr>events := events w @ [Import LangchainBridge, Import ClipPackage]\<rparr>)"
    using clip_with_colon [OF assms, of cm w] by simp
qed

theorem resolve_clip_model_name_witness:
  "startswith ''clip:ViT-L/14'' ''clip''
   \<and> importable (sample_env Map.empty (\<lambda>p. p = ClipPackage)) ClipPackage
   \<and> ''clip:ViT-L/14'' = ''clip:'' @ ''ViT-L/14'' \<and> CHR '':'' \<notin> set ''ViT-L/14''
   \<and> resolve_embed_model (PyStr ''clip:ViT-L/14'' :: (nat, nat list, unit) pyval) (Some 3)
        (sample_env Map.empty (\<lambda>p. p = ClipPackage)) sample_world =
     (Inr (BaseEmbedding \<lparr>embed_class = ClipEmbedding ''ViT-L/14'', callback_manager = 3\<rparr>),
      \<lparr>dirs = {}, stdout = [], events = [Import LangchainBridge, Import ClipPackage]\<rparr>)"
  using resolve_clip_model_name
    [where 'z = unit, of "''clip:ViT-L/14''" "sample_env Map.empty (\<lambda>p. p = ClipPackage)" "Some 3" sample_world
        "''ViT-L/14''"]
  by (simp add: sample_env_def sample_world_def handle_or_default_def startswith_def)


section \<open>Missing packages\<close>






section \<open>Unrecognised specifiers\<close>

lemma takeWhile_is_prefix: "takeWhile P s = p \<Longrightarrow> startswith s p"
  unfolding startswith_def
  by (metis append_eq_conv_conj takeWhile_dropWhile_id)

lemma first_field_not_local:
  assumes "\<not> startswith s ''local''"
  shows "\<exists>f rest. split_max CHR '':'' 1 s = f # rest \<and> f \<noteq> ''local''"
proof (cases "CHR '':'' \<in> set s")
  case True
  with assms takeWhile_is_prefix [of "\<lambda>x. x \<noteq> CHR '':''" s "''local''"] show ?thesis
    by auto
next
  case False
  with assms show ?thesis by (auto simp: startswith_def)
qed

lemma unrecognised_string_without_huggingface:
  assumes "s \<noteq> ''default''" and "\<not> startswith s ''clip''"
    and "\<not> importable env HuggingFacePackage"
  shows "resolve_embed_model (PyStr s :: ('h, 'v, 'z) pyval) cm env w =
     (Inl (ImportError huggingface_missing),
      w\<lparr>events := events w @ [Import LangchainBridge, Import HuggingFacePackage]\<rparr>)"
  using assms by (simp add: block_defs action_defs)

text \<open>
  Claim C3, as the code has it. A string that is not \<^verbatim>\<open>"default"\<close> and starts with none
  of \<^verbatim>\<open>"local"\<close>, \<^verbatim>\<open>"clip"\<close> and \<^verbatim>\<open>"azure-openai"\<close> is rejected with the \<^verbatim>\<open>ValueError\<close> that asks
  for a string starting with \<^verbatim>\<open>'local'\<close>, provided the huggingface package can be
  imported: the import comes first in the block and its failure is raised instead.
  Values that are neither strings nor providers are not checked at all.
\<close>

theorem unrecognised_string_rejected:
  assumes "s \<noteq> ''default''" and "\<not> startswith s ''local''" and "\<not> startswith s ''clip''"
    and "\<not> startswith s ''azure-openai''" and "importable env HuggingFacePackage"
  shows "resolve_embed_model (PyStr s :: ('h, 'v, 'z) pyval) cm env w =
     (Inl (ValueError must_be_local),
      w\<lparr>events := events w @ [Import LangchainBridge, Import HuggingFacePackage]\<rparr>)"
proof -
  from first_field_not_local [OF assms(2)] obtain f rest where
    "split_max CHR '':'' 1 s = f # rest" and "f \<noteq> ''local''" by blast
  with assms show ?thesis
    by (simp add: block_defs action_defs del: split_max.simps One_nat_def)
qed

theorem unrecognised_string_rejected_witness:
  "''openai:ada'' \<noteq> ''default'' \<and> \<not> startswith ''openai:ada'' ''local''
   \<and> \<not> startswith ''openai:ada'' ''clip'' \<and> \<not> startswith ''openai:ada'' ''azure-openai''
   \<and> importable (sample_env Map.empty (\<lambda>p. p = HuggingFacePackage)) HuggingFacePackage
   \<and> resolve_embed_model (PyStr ''openai:ada'' :: (nat, nat list, unit) pyval) None
        (sample_env Map.empty (\<lambda>p. p = HuggingFacePackage)) sample_world =
     (Inl (ValueError must_be_local),
      \<lparr>dirs = {}, stdout = [], events = [Import LangchainBridge, Import HuggingFacePackage]\<rparr>)"
  using unrecognised_string_rejected
    [where 'z = unit, of "''openai:ada''" "sample_env Map.empty (\<lambda>p. p = HuggingFacePackage)"
       None sample_world]
  by (simp add: sample_env_def sample_world_def startswith_def)

text \<open>
  The claim as the specification states it fails twice. The integer 5 is neither a
  string nor a provider: it passes every test of the function untouched and the final
  attribute assignment raises \<^verbatim>\<open>AttributeError\<close>. The unrecognised string \<^verbatim>\<open>"openai:ada"\<close>
  raises \<^verbatim>\<open>ImportError\<close> when the huggingface package is missing.
\<close>

theorem unrecognised_specifier_counterexample:
  "fst (resolve_embed_model (PyInt 5 :: (nat, nat list, unit) pyval) None
          (sample_env Map.empty (\<lambda>p. True)) sample_world) =
     Inl (AttributeError (no_attribute ''int''))
   \<and> AttributeError (no_attribute ''int'') \<noteq> ValueError must_be_local
   \<and> fst (resolve_embed_model (PyStr ''openai:ada'' :: (nat, nat list, unit) pyval) None
          (sample_env Map.empty (\<lambda>p. False)) sample_world) =
     Inl (ImportError huggingface_missing)"
  by (simp add: block_defs action_defs sample_env_def startswith_def)


section \<open>Every outcome\<close>














section \<open>Saving and loading an embedding\<close>

lemma length_join: "length xs - 1 \<le> length (join c xs)"
  by (induction c xs rule: join.induct) auto

lemma split_max_join:
  "xs \<noteq> [] \<Longrightarrow> \<forall>x \<in> set xs. c \<notin> set x \<Longrightarrow> length xs - 1 \<le> n \<Longrightarrow>
   split_max c n (join c xs) = xs"
proof (induction c xs arbitrary: n rule: join.induct)
  case (1 c)
  then show ?case by simp
next
  case (2 c x)
  then show ?case by (cases n) simp_all
next
  case (3 c x y ys)
  then obtain m where n: "n = Suc m" by (cases n) auto
  from 3 have cx: "\<forall>a \<in> set x. a \<noteq> c" by auto
  have tw: "takeWhile (\<lambda>a. a \<noteq> c) (x @ c # join c (y # ys)) = x"
    using cx by (simp add: takeWhile_append2)
  have dw: "dropWhile (\<lambda>a. a \<noteq> c) (x @ c # join c (y # ys)) = c # join c (y # ys)"
    using cx by (simp add: dropWhile_append2)
  have "split_max c m (join c (y # ys)) = y # ys"
    using "3.IH" [of m] "3.prems" n by auto
  with tw dw n show ?case by simp
qed

lemma split_join:
  "xs \<noteq> [] \<Longrightarrow> \<forall>x \<in> set xs. c \<notin> set x \<Longrightarrow> split c (join c xs) = xs"
  unfolding split_def using length_join [of xs c] by (intro split_max_join) auto

lemma parse_floats_map:
  "\<forall>x \<in> set e. float (str x) = Some x \<Longrightarrow> parse_floats float (map str e) = Inr e"
  by (induction e) auto

lemma set_join: "set (join c xs) \<subseteq> insert c (\<Union>x \<in> set xs. set x)"
  by (induction c xs rule: join.induct) auto

lemma join_nonempty: "xs \<noteq> [] \<Longrightarrow> hd xs \<noteq> [] \<Longrightarrow> join c xs \<noteq> []"
  by (induction c xs rule: join.induct) auto

lemma dropWhile_none: "\<forall>c \<in> set s. \<not> P c \<Longrightarrow> dropWhile P s = s"
  by (cases s) auto

lemma strip_clean: "\<forall>c \<in> set s. \<not> is_space c \<Longrightarrow> strip s = s"
  by (simp add: strip_def dropWhile_none)

lemma strip_clean_newline:
  assumes "\<forall>c \<in> set s. \<not> is_space c" and "s \<noteq> []"
  shows "strip (s @ [CHR 0x0A]) = s"
proof -
  from assms have "dropWhile is_space (s @ [CHR 0x0A]) = s @ [CHR 0x0A]"
    by (cases s) auto
  moreover have "is_space (CHR 0x0A)" by (simp add: is_space_def)
  ultimately show ?thesis using assms(1) by (simp add: strip_def dropWhile_none)
qed

lemma translate_newlines_Cons:
  "c \<noteq> CHR 0x0D \<Longrightarrow> translate_newlines (c # s) = c # translate_newlines s"
  by (cases s) auto

lemma translate_newlines_clean:
  "CHR 0x0D \<notin> set t \<Longrightarrow> translate_newlines (t @ r) = t @ translate_newlines r"
  by (induction t) (auto simp: translate_newlines_Cons)

lemma lines_from_first:
  "CHR 0x0A \<notin> set t \<Longrightarrow>
   lines_from acc (t @ CHR 0x0A # r) = (rev acc @ t @ [CHR 0x0A]) # lines_from [] r"
  by (induction t arbitrary: acc) auto

lemma lines_from_single:
  "CHR 0x0A \<notin> set t \<Longrightarrow> rev acc @ t \<noteq> [] \<Longrightarrow> lines_from acc t = [rev acc @ t]"
  by (induction t arbitrary: acc) auto

lemma load_empty_file:
  "load_embedding float p [p \<mapsto> []] = Inl (UnboundLocalError ''embedding'')"
  by (simp add: load_embedding_def file_lines_def)

lemma load_after_saving_empty_list:
  "load_embedding float p (save_embedding str [] p files) = Inl (UnboundLocalError ''embedding'')"
  by (simp add: load_embedding_def save_embedding_def file_lines_def)

text \<open>
  C10. Round trip of the persistence helpers: for a non-empty list \<open>e\<close> of floats and a path
  \<open>p\<close>, \<^verbatim>\<open>save_embedding(e, p)\<close> followed by \<^verbatim>\<open>load_embedding(p)\<close> returns a list equal to
  \<open>e\<close>; and \<^verbatim>\<open>load_embedding\<close> returns the embedding of the first line only, whatever follows
  it in the file. The floats are those that the interpreter prints and reads back unchanged
  (every float but NaN), as a non-empty text with no comma and no white space.
\<close>

theorem save_load_roundtrip:
  assumes "e \<noteq> []"
    and "\<forall>x \<in> set e. float (str x) = Some x \<and> str x \<noteq> []
           \<and> (\<forall>c \<in> set (str x). c \<noteq> CHR '','' \<and> \<not> is_space c)"
  shows "load_embedding float p (save_embedding str e p files) = Inr e
   \<and> load_embedding float p (files(p \<mapsto> join CHR '','' (map str e) @ CHR 0x0A # rest)) = Inr e"
proof -
  let ?t = "join CHR '','' (map str e)"
  have fields: "split CHR '','' ?t = map str e"
    using assms by (intro split_join) auto
  have parsed: "parse_floats float (map str e) = Inr e"
    using assms by (intro parse_floats_map) auto
  have comma: "\<not> is_space CHR '',''" by (simp add: is_space_def)
  have clean: "\<forall>c \<in> set ?t. \<not> is_space c"
    using set_join [of "CHR '',''" "map str e"] assms(2) comma by auto
  have nonempty: "?t \<noteq> []"
    using assms by (intro join_nonempty) (auto simp: hd_map)
  have no_cr: "CHR 0x0D \<notin> set ?t" and no_lf: "CHR 0x0A \<notin> set ?t"
    using clean by (auto simp: is_space_def)
  have "translate_newlines ?t = ?t"
    using translate_newlines_clean [OF no_cr, of "[]"] by simp
  then have one: "file_lines ?t = [?t]"
    using lines_from_single [OF no_lf, of "[]"] nonempty by (simp add: file_lines_def)
  have "translate_newlines (?t @ CHR 0x0A # rest) = ?t @ translate_newlines (CHR 0x0A # rest)"
    using no_cr by (rule translate_newlines_clean)
  then have "translate_newlines (?t @ CHR 0x0A # rest) = ?t @ CHR 0x0A # translate_newlines rest"
    by (simp add: translate_newlines_Cons)
  then have more: "file_lines (?t @ CHR 0x0A # rest) =
      (?t @ [CHR 0x0A]) # lines_from [] (translate_newlines rest)"
    using lines_from_first [OF no_lf, of "[]"] by (simp add: file_lines_def)
  have s1: "strip ?t = ?t" using clean by (rule strip_clean)
  have s2: "strip (?t @ [CHR 0x0A]) = ?t" using clean nonempty by (rule strip_clean_newline)
  show ?thesis
    using one more s1 s2 fields parsed
    by (simp add: load_embedding_def save_embedding_def)
qed

theorem save_load_roundtrip_witness:
  "[1, 5/2] \<noteq> ([] :: real list)
   \<and> sample_float (sample_str 1) = Some 1 \<and> sample_float (sample_str (5/2)) = Some (5/2)
   \<and> load_embedding sample_float ''emb.txt''
       (save_embedding sample_str [1, 5/2] ''emb.txt'' Map.empty) = Inr [1, 5/2]
   \<and> load_embedding sample_float ''emb.txt''
       [''emb.txt'' \<mapsto> ''1.0,2.5'' @ CHR 0x0A # ''0.0,0.0''] = Inr [1, 5/2]"
  using save_load_roundtrip
    [of "[1, 5/2]" sample_float sample_str "''emb.txt''" Map.empty "''0.0,0.0''"]
  by (simp add: sample_float_def sample_str_def is_space_def)


end
